theory Spec2Isabelle
  imports Main "HOL-Library.AList"
begin

section \<open>Values, exceptions and configuration\<close>

text \<open>
  The authentication module \<^verbatim>\<open>app/auth_prisma.py\<close> passes Python dictionaries to its
  libraries and receives them back. A dictionary is an association list (Python keeps
  insertion order, and \<^verbatim>\<open>dict.update\<close> replaces a key in place or appends it), its values
  are the JSON-like values that occur in the module. Times are seconds on the UTC clock,
  a \<^verbatim>\<open>timedelta\<close> is a number of seconds.
\<close>

datatype jvalue =
    JNull
  | JStr string
  | JNum int
  | JDatetime int
  | JObj "(string \<times> jvalue) list"

type_synonym pydict = "(string \<times> jvalue) list"

text \<open>
  Exceptions are values. A library call raises a \<open>lib_error\<close>: \<^verbatim>\<open>JWTError\<close> stands for
  python-jose's \<^verbatim>\<open>JWTError\<close> and its subclasses (the \<^verbatim>\<open>except JWTError\<close> clause of the
  module catches all of them), \<^verbatim>\<open>OtherError\<close> for every other exception of a library.
  The module itself raises \<^verbatim>\<open>HTTPException\<close>, which FastAPI turns into a response with
  that status code, detail message and headers; a library error it does not catch leaves
  the endpoint as \<open>Unhandled\<close>.
\<close>

datatype lib_error =
    JWTError string
  | OtherError string

datatype exn =
    HTTPException (status_code: nat) (detail: string) (headers: "(string \<times> string) list")
  | Unhandled lib_error

definition HTTP_400_BAD_REQUEST :: nat where
  "HTTP_400_BAD_REQUEST = 400"

definition HTTP_401_UNAUTHORIZED :: nat where
  "HTTP_401_UNAUTHORIZED = 401"

text \<open>\<^verbatim>\<open>SECRET_KEY = os.getenv("SECRET_KEY", "your-secret-key-change-in-production")\<close>\<close>

definition SECRET_KEY :: "(string \<rightharpoonup> string) \<Rightarrow> string" where
  "SECRET_KEY environ =
     (case environ ''SECRET_KEY'' of
        Some k \<Rightarrow> k
      | None \<Rightarrow> ''your-secret-key-change-in-production'')"

definition ALGORITHM :: string where
  "ALGORITHM = ''HS256''"

definition ACCESS_TOKEN_EXPIRE_MINUTES :: int where
  "ACCESS_TOKEN_EXPIRE_MINUTES = 30"

text \<open>\<^verbatim>\<open>timedelta(minutes=m)\<close>, in seconds.\<close>

definition timedelta_minutes :: "int \<Rightarrow> int" where
  "timedelta_minutes m = 60 * m"

text \<open>\<^verbatim>\<open>d.get(k)\<close>: \<^verbatim>\<open>None\<close> when the key is absent and when its value is \<^verbatim>\<open>None\<close>.\<close>

definition dict_get :: "pydict \<Rightarrow> string \<Rightarrow> jvalue option" where
  "dict_get d k = (case map_of d k of Some JNull \<Rightarrow> None | r \<Rightarrow> r)"

section \<open>The libraries the module calls\<close>

text \<open>
  passlib's \<^verbatim>\<open>CryptContext(schemes=["bcrypt"])\<close> and python-jose's \<^verbatim>\<open>jwt\<close> are third-party
  code: the module only calls them. They are parameters of the model, one record of the
  four entry points the module uses. Every call may raise, so every entry point returns a
  sum. \<^verbatim>\<open>jwt.decode\<close> reads the clock to check the expiry claim: the clock reading is its
  last argument. A \<^verbatim>\<open>libs\<close> value is the library as it behaves in one run, the salt that
  \<^verbatim>\<open>hash\<close> draws included.
\<close>

record libs =
  pwd_context_verify :: "string \<Rightarrow> string \<Rightarrow> lib_error + bool"
  pwd_context_hash :: "string \<Rightarrow> lib_error + string"
  jwt_encode :: "pydict \<Rightarrow> string \<Rightarrow> string \<Rightarrow> lib_error + string"
  jwt_decode :: "string \<Rightarrow> string \<Rightarrow> string list \<Rightarrow> int \<Rightarrow> lib_error + pydict"

section \<open>Request and response models (\<^verbatim>\<open>app/models_prisma.py\<close>)\<close>

text \<open>
  \<^verbatim>\<open>UserResponse\<close> has the fields id, email, username, createdAt and updatedAt. The stored
  user record has the same fields and the password hash. The request models carry a
  prefix on their field names, which would otherwise clash with those of the user record.
\<close>

record UserCreate =
  create_email :: string
  create_username :: string
  create_password :: string

record UserLogin =
  login_username :: string
  login_password :: string

record UserResponse =
  id_field :: string
  email :: string
  username :: string
  createdAt :: int
  updatedAt :: int

record User = UserResponse +
  password :: string

record Token =
  access_token :: string
  token_type :: string
  user :: UserResponse

text \<open>\<^verbatim>\<open>db_user.dict()\<close>: every field of the stored record, by name.\<close>

definition User_dict :: "User \<Rightarrow> pydict" where
  "User_dict u =
     [(''id'', JStr (id_field u)),
      (''email'', JStr (email u)),
      (''username'', JStr (username u)),
      (''password'', JStr (password u)),
      (''createdAt'', JDatetime (createdAt u)),
      (''updatedAt'', JDatetime (updatedAt u))]"

text \<open>
  \<^verbatim>\<open>UserResponse(**kwargs)\<close>: pydantic takes the declared fields from the keyword
  arguments by name, checks their types and ignores every other key. A missing or
  ill-typed field is a validation error.
\<close>

definition UserResponse_init :: "pydict \<Rightarrow> lib_error + UserResponse" where
  "UserResponse_init kwargs =
     (case (map_of kwargs ''id'', map_of kwargs ''email'', map_of kwargs ''username'',
            map_of kwargs ''createdAt'', map_of kwargs ''updatedAt'') of
        (Some (JStr i), Some (JStr e), Some (JStr n), Some (JDatetime c), Some (JDatetime m)) \<Rightarrow>
          Inr \<lparr>id_field = i, email = e, username = n, createdAt = c, updatedAt = m\<rparr>
      | _ \<Rightarrow> Inl (OtherError ''ValidationError''))"

text \<open>The response bodies, as the JSON objects the endpoints send.\<close>

definition UserResponse_dict :: "UserResponse \<Rightarrow> pydict" where
  "UserResponse_dict r =
     [(''id'', JStr (id_field r)),
      (''email'', JStr (email r)),
      (''username'', JStr (username r)),
      (''createdAt'', JDatetime (createdAt r)),
      (''updatedAt'', JDatetime (updatedAt r))]"

definition Token_dict :: "Token \<Rightarrow> pydict" where
  "Token_dict t =
     [(''access_token'', JStr (access_token t)),
      (''token_type'', JStr (token_type t)),
      (''user'', JObj (UserResponse_dict (user t)))]"

section \<open>The credential store\<close>

text \<open>
  Modelled from the spec: the Prisma client and its schema are not among the sources. The
  store is the table of identity records, in insertion order, with username and email
  each unique. \<^verbatim>\<open>find_unique\<close> returns the record with the given username or email, or
  \<^verbatim>\<open>None\<close>. \<^verbatim>\<open>create\<close> inserts a record whose id and timestamps the database supplies; it
  raises when the username or the email is taken, and inserts nothing then.
\<close>

type_synonym store = "User list"

datatype user_where = WhereUsername string | WhereEmail string

fun find_unique :: "store \<Rightarrow> user_where \<Rightarrow> User option" where
  "find_unique db (WhereUsername n) = find (\<lambda>u. username u = n) db"
| "find_unique db (WhereEmail e) = find (\<lambda>u. email u = e) db"

record db_defaults =
  fresh_id :: string
  db_now :: int

definition user_create :: "store \<Rightarrow> db_defaults \<Rightarrow> string \<Rightarrow> string \<Rightarrow> string \<Rightarrow> (lib_error + User) \<times> store" where
  "user_create db g uname mail hashed =
     (if find_unique db (WhereUsername uname) \<noteq> None \<or> find_unique db (WhereEmail mail) \<noteq> None
      then (Inl (OtherError ''UniqueViolationError''), db)
      else
        (let u = \<lparr>id_field = fresh_id g, email = mail, username = uname,
                  createdAt = db_now g, updatedAt = db_now g, password = hashed\<rparr>
         in (Inr u, db @ [u])))"

section \<open>The authentication module (\<^verbatim>\<open>app/auth_prisma.py\<close>)\<close>

definition verify_password :: "libs \<Rightarrow> string \<Rightarrow> string \<Rightarrow> lib_error + bool" where
  "verify_password L plain_password hashed_password =
     pwd_context_verify L plain_password hashed_password"

definition get_password_hash :: "libs \<Rightarrow> string \<Rightarrow> lib_error + string" where
  "get_password_hash L pw = pwd_context_hash L pw"

text \<open>
  \<^verbatim>\<open>create_access_token\<close> copies the data, adds the expiry and signs. The test
  \<^verbatim>\<open>if expires_delta:\<close> is false for \<^verbatim>\<open>None\<close> and for a zero \<^verbatim>\<open>timedelta\<close>. The claims
  that are signed are a function of their own, \<open>to_encode\<close>.
\<close>

definition to_encode :: "int \<Rightarrow> pydict \<Rightarrow> int option \<Rightarrow> pydict" where
  "to_encode utcnow data expires_delta =
     (let expire =
            (case expires_delta of
               Some d \<Rightarrow> if d \<noteq> 0 then utcnow + d else utcnow + timedelta_minutes 15
             | None \<Rightarrow> utcnow + timedelta_minutes 15)
      in AList.update ''exp'' (JDatetime expire) data)"

definition create_access_token ::
  "libs \<Rightarrow> (string \<rightharpoonup> string) \<Rightarrow> int \<Rightarrow> pydict \<Rightarrow> int option \<Rightarrow> lib_error + string" where
  "create_access_token L environ utcnow data expires_delta =
     jwt_encode L (to_encode utcnow data expires_delta) (SECRET_KEY environ) ALGORITHM"

definition get_user_by_username :: "store \<Rightarrow> string \<Rightarrow> User option" where
  "get_user_by_username prisma uname = find_unique prisma (WhereUsername uname)"

definition get_user_by_email :: "store \<Rightarrow> string \<Rightarrow> User option" where
  "get_user_by_email prisma mail = find_unique prisma (WhereEmail mail)"

text \<open>\<^verbatim>\<open>authenticate_user\<close> returns \<^verbatim>\<open>False\<close> (here \<open>None\<close>) or the user.\<close>

definition authenticate_user :: "libs \<Rightarrow> store \<Rightarrow> string \<Rightarrow> string \<Rightarrow> lib_error + User option" where
  "authenticate_user L prisma uname pw =
     (case get_user_by_username prisma uname of
        None \<Rightarrow> Inr None
      | Some u \<Rightarrow>
          (case verify_password L pw (password u) of
             Inl e \<Rightarrow> Inl e
           | Inr ok \<Rightarrow> if \<not> ok then Inr None else Inr (Some u)))"

definition credentials_exception :: exn where
  "credentials_exception =
     HTTPException HTTP_401_UNAUTHORIZED ''Could not validate credentials''
       [(''WWW-Authenticate'', ''Bearer'')]"

text \<open>
  \<^verbatim>\<open>get_current_user\<close>: the endpoints return their result and the store they leave
  behind. The \<^verbatim>\<open>except\<close> clause catches \<^verbatim>\<open>JWTError\<close> only, any other exception of the
  decoder propagates. A subject that is not a string reaches the store query, which
  rejects it.
\<close>

definition get_current_user ::
  "libs \<Rightarrow> (string \<rightharpoonup> string) \<Rightarrow> int \<Rightarrow> string \<Rightarrow> store \<Rightarrow> (exn + User) \<times> store" where
  "get_current_user L environ utcnow credentials prisma =
     (case jwt_decode L credentials (SECRET_KEY environ) [ALGORITHM] utcnow of
        Inl (JWTError m) \<Rightarrow> (Inl credentials_exception, prisma)
      | Inl e \<Rightarrow> (Inl (Unhandled e), prisma)
      | Inr payload \<Rightarrow>
          (case dict_get payload ''sub'' of
             None \<Rightarrow> (Inl credentials_exception, prisma)
           | Some (JStr uname) \<Rightarrow>
               (case get_user_by_username prisma uname of
                  None \<Rightarrow> (Inl credentials_exception, prisma)
                | Some u \<Rightarrow> (Inr u, prisma))
           | Some v \<Rightarrow> (Inl (Unhandled (OtherError ''DataError'')), prisma)))"

definition signup ::
  "libs \<Rightarrow> (string \<rightharpoonup> string) \<Rightarrow> db_defaults \<Rightarrow> int \<Rightarrow> UserCreate \<Rightarrow> store \<Rightarrow> (exn + Token) \<times> store" where
  "signup L environ g utcnow user_data prisma =
     (case get_user_by_username prisma (create_username user_data) of
        Some existing_user \<Rightarrow>
          (Inl (HTTPException HTTP_400_BAD_REQUEST ''Username already registered'' []), prisma)
      | None \<Rightarrow>
          (case get_user_by_email prisma (create_email user_data) of
             Some existing_email \<Rightarrow>
               (Inl (HTTPException HTTP_400_BAD_REQUEST ''Email already registered'' []), prisma)
           | None \<Rightarrow>
               (case get_password_hash L (create_password user_data) of
                  Inl e \<Rightarrow> (Inl (Unhandled e), prisma)
                | Inr hashed_password \<Rightarrow>
                    (case user_create prisma g (create_username user_data)
                            (create_email user_data) hashed_password of
                       (Inl e, prisma') \<Rightarrow> (Inl (Unhandled e), prisma')
                     | (Inr db_user, prisma') \<Rightarrow>
                         (case create_access_token L environ utcnow
                                 [(''sub'', JStr (username db_user))]
                                 (Some (timedelta_minutes ACCESS_TOKEN_EXPIRE_MINUTES)) of
                            Inl e \<Rightarrow> (Inl (Unhandled e), prisma')
                          | Inr tok \<Rightarrow>
                              (case UserResponse_init (User_dict db_user) of
                                 Inl e \<Rightarrow> (Inl (Unhandled e), prisma')
                               | Inr view \<Rightarrow>
                                   (Inr \<lparr>access_token = tok, token_type = ''bearer'',
                                         user = view\<rparr>, prisma')))))))"

definition login ::
  "libs \<Rightarrow> (string \<rightharpoonup> string) \<Rightarrow> int \<Rightarrow> UserLogin \<Rightarrow> store \<Rightarrow> (exn + Token) \<times> store" where
  "login L environ utcnow user_data prisma =
     (case authenticate_user L prisma (login_username user_data) (login_password user_data) of
        Inl e \<Rightarrow> (Inl (Unhandled e), prisma)
      | Inr None \<Rightarrow>
          (Inl (HTTPException HTTP_401_UNAUTHORIZED ''Incorrect username or password''
                  [(''WWW-Authenticate'', ''Bearer'')]), prisma)
      | Inr (Some u) \<Rightarrow>
          (case create_access_token L environ utcnow
                  [(''sub'', JStr (username u))]
                  (Some (timedelta_minutes ACCESS_TOKEN_EXPIRE_MINUTES)) of
             Inl e \<Rightarrow> (Inl (Unhandled e), prisma)
           | Inr tok \<Rightarrow>
               (case UserResponse_init (User_dict u) of
                  Inl e \<Rightarrow> (Inl (Unhandled e), prisma)
                | Inr view \<Rightarrow>
                    (Inr \<lparr>access_token = tok, token_type = ''bearer'', user = view\<rparr>,
                     prisma))))"

definition get_current_user_info :: "User \<Rightarrow> lib_error + UserResponse" where
  "get_current_user_info current_user = UserResponse_init (User_dict current_user)"

section \<open>The contract of the token library\<close>

text \<open>
  The validator behind \<^verbatim>\<open>jwt.decode\<close> is python-jose, which is not part of the repository;
  the module has no signature or expiry check of its own. The decoder is constrained by
  what the library does: it raises a \<^verbatim>\<open>JWTError\<close> when the signature does not verify and
  when the \<^verbatim>\<open>exp\<close> claim of the token lies before the clock reading (\<^verbatim>\<open>exp < now\<close>, in whole
  seconds, so that a token is still accepted during the second of its expiry), and
  returns the claims of the token otherwise; a token without \<^verbatim>\<open>exp\<close> does not expire.
  \<open>verifies\<close> says which token strings carry a signature that verifies against the key and
  \<open>claims\<close> gives the payload of a token; the expiry is the \<^verbatim>\<open>exp\<close> claim of that payload. A
  token that verifies has a subject that is a string, or none.
\<close>

definition exp_claim :: "pydict \<Rightarrow> int option" where
  "exp_claim c =
     (case map_of c ''exp'' of
        Some (JDatetime e) \<Rightarrow> Some e
      | Some (JNum e) \<Rightarrow> Some e
      | _ \<Rightarrow> None)"

definition expired :: "pydict \<Rightarrow> int \<Rightarrow> bool" where
  "expired c utcnow = (case exp_claim c of None \<Rightarrow> False | Some e \<Rightarrow> e < utcnow)"

definition subject_well_typed :: "pydict \<Rightarrow> bool" where
  "subject_well_typed c =
     (case dict_get c ''sub'' of None \<Rightarrow> True | Some (JStr s) \<Rightarrow> True | Some v \<Rightarrow> False)"

definition validator_contract ::
  "libs \<Rightarrow> string \<Rightarrow> (string \<Rightarrow> bool) \<Rightarrow> (string \<Rightarrow> pydict) \<Rightarrow> bool" where
  "validator_contract L key verifies claims \<longleftrightarrow>
     (\<forall>tok utcnow.
        if verifies tok \<and> \<not> expired (claims tok) utcnow
        then jwt_decode L tok key [ALGORITHM] utcnow = Inr (claims tok)
        else (\<exists>m. jwt_decode L tok key [ALGORITHM] utcnow = Inl (JWTError m))) \<and>
     (\<forall>tok. verifies tok \<longrightarrow> subject_well_typed (claims tok))"


section \<open>A stand-in for the libraries\<close>

text \<open>
  To run the module on concrete requests the library parameters need values. The stand-in
  keeps the signalling the libraries document and replaces the cryptography by tagging.
  Its password scheme marks a hash with the bcrypt prefix; as with passlib, \<^verbatim>\<open>verify\<close>
  raises \<^verbatim>\<open>UnknownHashError\<close> on a string that no configured scheme identifies. Its token
  codec knows one token, issued to alice under the default key with the expiry claim
  1800; as python-jose does, it rejects that token only once the clock is past second
  1800. Every other token string fails signature verification.
\<close>

definition stub_verify :: "string \<Rightarrow> string \<Rightarrow> lib_error + bool" where
  "stub_verify secret h =
     (if take 4 h = ''$2b$'' then Inr (drop 4 h = secret)
      else Inl (OtherError ''UnknownHashError''))"

definition stub_hash :: "string \<Rightarrow> lib_error + string" where
  "stub_hash secret = Inr (''$2b$'' @ secret)"

definition alice_claims :: pydict where
  "alice_claims = [(''sub'', JStr ''alice''), (''exp'', JDatetime 1800)]"

definition alice_token :: string where
  "alice_token = ''alice.1800.signed''"

definition stub_encode :: "pydict \<Rightarrow> string \<Rightarrow> string \<Rightarrow> lib_error + string" where
  "stub_encode c key alg =
     (if c = alice_claims \<and> key = SECRET_KEY Map.empty \<and> alg = ALGORITHM then Inr alice_token
      else Inl (JWTError ''unsupported claims''))"

definition stub_decode :: "string \<Rightarrow> string \<Rightarrow> string list \<Rightarrow> int \<Rightarrow> lib_error + pydict" where
  "stub_decode tok key algs utcnow =
     (if tok = alice_token \<and> key = SECRET_KEY Map.empty \<and> algs = [ALGORITHM]
      then (if 1800 < utcnow then Inl (JWTError ''Signature has expired.'') else Inr alice_claims)
      else Inl (JWTError ''Signature verification failed.''))"

definition stub_libs :: libs where
  "stub_libs =
     \<lparr>pwd_context_verify = stub_verify, pwd_context_hash = stub_hash,
      jwt_encode = stub_encode, jwt_decode = stub_decode\<rparr>"

definition stub_verifies :: "string \<Rightarrow> bool" where
  "stub_verifies tok \<longleftrightarrow> tok = alice_token"

definition stub_claims :: "string \<Rightarrow> pydict" where
  "stub_claims tok = (if tok = alice_token then alice_claims else [])"

text \<open>Sample data: a store holding alice, and requests against it.\<close>

definition alice :: User where
  "alice =
     \<lparr>id_field = ''u1'', email = ''alice@x.com'', username = ''alice'',
      createdAt = 0, updatedAt = 0, password = ''$2b$secret1''\<rparr>"

definition alice_signup :: UserCreate where
  "alice_signup =
     \<lparr>create_email = ''alice@x.com'', create_username = ''alice'', create_password = ''secret1''\<rparr>"

definition sample_defaults :: db_defaults where
  "sample_defaults = \<lparr>fresh_id = ''u1'', db_now = 0\<rparr>"

text \<open>A library whose \<^verbatim>\<open>hash\<close> always raises, to observe that a path does not reach it.\<close>

definition failing_hash_libs :: libs where
  "failing_hash_libs = stub_libs\<lparr>pwd_context_hash := \<lambda>secret. Inl (OtherError ''ValueError'')\<rparr>"

text \<open>Login requests, and a record whose stored password is not a hash.\<close>

definition bob_login :: UserLogin where
  "bob_login = \<lparr>login_username = ''bob'', login_password = ''secret1''\<rparr>"

definition alice_login :: UserLogin where
  "alice_login = \<lparr>login_username = ''alice'', login_password = ''secret1''\<rparr>"

definition alice_wrong_login :: UserLogin where
  "alice_wrong_login = \<lparr>login_username = ''alice'', login_password = ''wrong''\<rparr>"

definition mallory :: User where
  "mallory = alice\<lparr>password := ''not-a-hash''\<rparr>"

section \<open>Auxiliary facts\<close>

lemma find_Some_holds: "find P xs = Some x \<Longrightarrow> P x"
  by (auto simp: find_Some_iff)

lemma get_user_by_username_name:
  "get_user_by_username prisma n = Some u \<Longrightarrow> username u = n"
  by (auto simp: get_user_by_username_def dest: find_Some_holds)


lemma UserResponse_init_User_dict:
  "UserResponse_init (User_dict u) =
     Inr \<lparr>id_field = id_field u, email = email u, username = username u,
          createdAt = createdAt u, updatedAt = updatedAt u\<rparr>"
  by (simp add: UserResponse_init_def User_dict_def)

lemma to_encode_sub:
  "to_encode utcnow [(''sub'', v)] (Some (timedelta_minutes ACCESS_TOKEN_EXPIRE_MINUTES)) =
     [(''sub'', v), (''exp'', JDatetime (utcnow + 30 * 60))]"
  by (simp add: to_encode_def timedelta_minutes_def ACCESS_TOKEN_EXPIRE_MINUTES_def)

lemma stub_validator_contract:
  "validator_contract stub_libs (SECRET_KEY Map.empty) stub_verifies stub_claims"
  by (auto simp: validator_contract_def stub_libs_def stub_decode_def stub_verifies_def
        stub_claims_def expired_def exp_claim_def subject_well_typed_def dict_get_def
        alice_claims_def)



lemma signup_Inr_token:
  assumes "signup L environ g utcnow user_data prisma = (Inr r, prisma')"
  shows "jwt_encode L [(''sub'', JStr (create_username user_data)),
                       (''exp'', JDatetime (utcnow + 30 * 60))]
           (SECRET_KEY environ) ALGORITHM = Inr (access_token r) \<and>
         token_type r = ''bearer''"
  using assms
  by (auto simp: signup_def get_password_hash_def user_create_def create_access_token_def
        to_encode_sub UserResponse_init_User_dict get_current_user_info_def Let_def
        split: option.splits sum.splits if_splits)

lemma login_Inr_token:
  assumes "login L environ utcnow user_data prisma = (Inr r, prisma')"
  shows "jwt_encode L [(''sub'', JStr (login_username user_data)),
                       (''exp'', JDatetime (utcnow + 30 * 60))]
           (SECRET_KEY environ) ALGORITHM = Inr (access_token r) \<and>
         token_type r = ''bearer''"
  using assms
  by (auto simp: login_def authenticate_user_def create_access_token_def
        to_encode_sub UserResponse_init_User_dict get_current_user_info_def
        get_user_by_username_name
        split: option.splits sum.splits if_splits)

lemma view_keys:
  "map fst (UserResponse_dict v) = [''id'', ''email'', ''username'', ''createdAt'', ''updatedAt'']"
  by (simp add: UserResponse_dict_def)

lemma gcu_invalid:
  assumes "validator_contract L (SECRET_KEY environ) verifies claims"
    and "\<not> (verifies tok \<and> \<not> expired (claims tok) utcnow)"
  shows "fst (get_current_user L environ utcnow tok prisma) = Inl credentials_exception"
proof -
  from assms obtain m where
    "jwt_decode L tok (SECRET_KEY environ) [ALGORITHM] utcnow = Inl (JWTError m)"
    unfolding validator_contract_def by meson
  then show ?thesis by (simp add: get_current_user_def)
qed

lemma gcu_valid:
  assumes "validator_contract L (SECRET_KEY environ) verifies claims"
    and "verifies tok" and "\<not> expired (claims tok) utcnow"
  shows "fst (get_current_user L environ utcnow tok prisma) =
           (case dict_get (claims tok) ''sub'' of
              None \<Rightarrow> Inl credentials_exception
            | Some (JStr s) \<Rightarrow>
                (case get_user_by_username prisma s of
                   None \<Rightarrow> Inl credentials_exception
                 | Some u \<Rightarrow> Inr u)
            | Some v \<Rightarrow> Inl (Unhandled (OtherError ''DataError'')))"
proof -
  from assms have
    "jwt_decode L tok (SECRET_KEY environ) [ALGORITHM] utcnow = Inr (claims tok)"
    unfolding validator_contract_def by meson
  then show ?thesis
    by (simp add: get_current_user_def split: option.splits jvalue.splits)
qed

lemma gcu_subject:
  assumes "validator_contract L (SECRET_KEY environ) verifies claims"
    and "verifies tok"
  shows "dict_get (claims tok) ''sub'' = None \<or> (\<exists>s. dict_get (claims tok) ''sub'' = Some (JStr s))"
proof -
  from assms have "subject_well_typed (claims tok)"
    unfolding validator_contract_def by blast
  then show ?thesis
    by (simp add: subject_well_typed_def split: option.splits jvalue.splits)
qed

lemma expired_iff: "expired c utcnow \<longleftrightarrow> (\<exists>e. exp_claim c = Some e \<and> e < utcnow)"
  by (simp add: expired_def split: option.splits)

lemma gcu_characterisation:
  assumes "validator_contract L (SECRET_KEY environ) verifies claims"
  shows "(fst (get_current_user L environ utcnow tok prisma) = Inl credentials_exception \<longleftrightarrow>
            \<not> verifies tok \<or>
            dict_get (claims tok) ''sub'' = None \<or>
            (\<exists>e. exp_claim (claims tok) = Some e \<and> e < utcnow) \<or>
            (\<exists>s. dict_get (claims tok) ''sub'' = Some (JStr s) \<and>
                 get_user_by_username prisma s = None)) \<and>
         (\<forall>x. fst (get_current_user L environ utcnow tok prisma) = Inl x \<longrightarrow>
              x = credentials_exception) \<and>
         (\<forall>u. fst (get_current_user L environ utcnow tok prisma) = Inr u \<longrightarrow>
              dict_get (claims tok) ''sub'' = Some (JStr (username u)))"
proof (cases "verifies tok \<and> \<not> expired (claims tok) utcnow")
  case False
  have "fst (get_current_user L environ utcnow tok prisma) = Inl credentials_exception"
    by (rule gcu_invalid [OF assms False])
  moreover from False have
    "\<not> verifies tok \<or> (\<exists>e. exp_claim (claims tok) = Some e \<and> e < utcnow)"
    by (simp add: expired_iff)
  ultimately show ?thesis by auto
next
  case True
  then have v: "verifies tok"
    and ne: "\<not> (\<exists>e. exp_claim (claims tok) = Some e \<and> e < utcnow)"
    by (simp_all add: expired_iff)
  from True have r: "fst (get_current_user L environ utcnow tok prisma) =
           (case dict_get (claims tok) ''sub'' of
              None \<Rightarrow> Inl credentials_exception
            | Some (JStr s) \<Rightarrow>
                (case get_user_by_username prisma s of
                   None \<Rightarrow> Inl credentials_exception
                 | Some u \<Rightarrow> Inr u)
            | Some v \<Rightarrow> Inl (Unhandled (OtherError ''DataError'')))"
    using gcu_valid [OF assms] by blast
  from gcu_subject [OF assms v] show ?thesis
  proof
    assume n: "dict_get (claims tok) ''sub'' = None"
    with r show ?thesis by simp
  next
    assume "\<exists>s. dict_get (claims tok) ''sub'' = Some (JStr s)"
    then obtain s where s: "dict_get (claims tok) ''sub'' = Some (JStr s)" ..
    show ?thesis
    proof (cases "get_user_by_username prisma s")
      case None
      with r s show ?thesis by simp
    next
      case (Some u)
      then have "username u = s" by (rule get_user_by_username_name)
      with r s Some v ne show ?thesis by simp
    qed
  qed
qed

lemma login_outcome:
  "fst (login L environ utcnow user_data prisma) =
     (case get_user_by_username prisma (login_username user_data) of
        None \<Rightarrow> Inl (HTTPException 401 ''Incorrect username or password''
                       [(''WWW-Authenticate'', ''Bearer'')])
      | Some u \<Rightarrow>
          (case verify_password L (login_password user_data) (password u) of
             Inl e \<Rightarrow> Inl (Unhandled e)
           | Inr False \<Rightarrow> Inl (HTTPException 401 ''Incorrect username or password''
                                [(''WWW-Authenticate'', ''Bearer'')])
           | Inr True \<Rightarrow>
               (case jwt_encode L [(''sub'', JStr (username u)),
                                   (''exp'', JDatetime (utcnow + 30 * 60))]
                       (SECRET_KEY environ) ALGORITHM of
                  Inl e \<Rightarrow> Inl (Unhandled e)
                | Inr tok \<Rightarrow>
                    Inr \<lparr>access_token = tok, token_type = ''bearer'',
                         user = \<lparr>id_field = id_field u, email = email u,
                                 username = username u, createdAt = createdAt u,
                                 updatedAt = updatedAt u\<rparr>\<rparr>)))"
  by (simp add: login_def authenticate_user_def HTTP_401_UNAUTHORIZED_def
        create_access_token_def to_encode_sub UserResponse_init_User_dict
        split: option.splits sum.splits bool.splits)

section \<open>Session resolution\<close>

text \<open>
  Claim C1, as stated: resolution fails with the 401 whenever the current time is at or
  past the expiry of the token. The module leaves the expiry check to \<^verbatim>\<open>jwt.decode\<close>, which
  rejects a token only when its expiry lies before the clock reading. At the second of
  its expiry a token with a valid signature and a known subject is still resolved to its
  user: here the token carries the expiry 1800 and is presented at second 1800.
\<close>

theorem get_current_user_at_expiry_counterexample:
  "exp_claim (stub_claims alice_token) = Some 1800 \<and>
   jwt_decode stub_libs alice_token (SECRET_KEY Map.empty) [ALGORITHM] 1800 =
     Inr (stub_claims alice_token) \<and>
   get_current_user stub_libs Map.empty 1800 alice_token [alice] = (Inr alice, [alice])"
  by (simp add: get_current_user_def stub_libs_def stub_decode_def stub_claims_def
        alice_claims_def exp_claim_def dict_get_def get_user_by_username_def alice_def)

text \<open>
  Claim C1, amended. For every bearer token presented to \<^verbatim>\<open>get_current_user\<close>, with a
  token library that behaves as the validator contract says, resolution fails with
  the exception of status 401, detail "Could not validate credentials" and header
  \<^verbatim>\<open>WWW-Authenticate: Bearer\<close> if and only if the signature does not verify, or the subject
  claim is missing, or the current time is past the expiry claim of the token (expiry
  before now; at the expiry itself the token is still accepted), or the store has no
  record with the subject as username. No other error leaves the resolver, so all
  failures are the same response, and on success the username of the resolved record
  is the subject of the token.
\<close>

theorem get_current_user_unauthenticated:
  assumes "validator_contract L (SECRET_KEY environ) verifies claims"
  shows "(fst (get_current_user L environ utcnow tok prisma) =
            Inl (HTTPException 401 ''Could not validate credentials''
                   [(''WWW-Authenticate'', ''Bearer'')]) \<longleftrightarrow>
            \<not> verifies tok \<or>
            dict_get (claims tok) ''sub'' = None \<or>
            (\<exists>e. exp_claim (claims tok) = Some e \<and> e < utcnow) \<or>
            (\<exists>s. dict_get (claims tok) ''sub'' = Some (JStr s) \<and>
                 get_user_by_username prisma s = None)) \<and>
         (\<forall>x. fst (get_current_user L environ utcnow tok prisma) = Inl x \<longrightarrow>
              x = HTTPException 401 ''Could not validate credentials''
                    [(''WWW-Authenticate'', ''Bearer'')]) \<and>
         (\<forall>u. fst (get_current_user L environ utcnow tok prisma) = Inr u \<longrightarrow>
              dict_get (claims tok) ''sub'' = Some (JStr (username u)))"
  by (rule gcu_characterisation
        [OF assms, unfolded credentials_exception_def HTTP_401_UNAUTHORIZED_def])

theorem get_current_user_unauthenticated_witness:
  "validator_contract stub_libs (SECRET_KEY Map.empty) stub_verifies stub_claims \<and>
   fst (get_current_user stub_libs Map.empty 1801 alice_token [alice]) =
     Inl (HTTPException 401 ''Could not validate credentials''
            [(''WWW-Authenticate'', ''Bearer'')]) \<and>
   fst (get_current_user stub_libs Map.empty 1800 alice_token [alice]) \<noteq>
     Inl (HTTPException 401 ''Could not validate credentials''
            [(''WWW-Authenticate'', ''Bearer'')]) \<and>
   fst (get_current_user stub_libs Map.empty 1799 alice_token []) =
     Inl (HTTPException 401 ''Could not validate credentials''
            [(''WWW-Authenticate'', ''Bearer'')]) \<and>
   fst (get_current_user stub_libs Map.empty 0 ''garbage'' [alice]) =
     Inl (HTTPException 401 ''Could not validate credentials''
            [(''WWW-Authenticate'', ''Bearer'')])"
proof -
  let ?x = "HTTPException 401 ''Could not validate credentials''
              [(''WWW-Authenticate'', ''Bearer'')]"
  note t = get_current_user_unauthenticated [OF stub_validator_contract, THEN conjunct1]
  have a: "fst (get_current_user stub_libs Map.empty 1801 alice_token [alice]) = Inl ?x"
    using t [of 1801 alice_token "[alice]"]
    by (simp add: stub_claims_def alice_claims_def exp_claim_def)
  have b: "fst (get_current_user stub_libs Map.empty 1800 alice_token [alice]) \<noteq> Inl ?x"
    using t [of 1800 alice_token "[alice]"]
    by (simp add: stub_verifies_def stub_claims_def alice_claims_def exp_claim_def
          dict_get_def get_user_by_username_def alice_def)
  have c: "fst (get_current_user stub_libs Map.empty 1799 alice_token []) = Inl ?x"
    using t [of 1799 alice_token "[]"]
    by (simp add: stub_claims_def alice_claims_def dict_get_def get_user_by_username_def)
  have d: "fst (get_current_user stub_libs Map.empty 0 ''garbage'' [alice]) = Inl ?x"
    using t [of 0 "''garbage''" "[alice]"] by (simp add: stub_verifies_def alice_token_def)
  from stub_validator_contract a b c d show ?thesis by blast
qed

text \<open>
  Claim C9. Session resolution and login leave the credential store as they found it,
  whether they succeed or fail: the store each returns is the store it was given.
\<close>

theorem read_paths_keep_store:
  "snd (get_current_user L environ utcnow credentials prisma) = prisma \<and>
   snd (login L' environ' utcnow' user_data prisma) = prisma"
  by (simp add: get_current_user_def login_def
        split: sum.splits lib_error.splits option.splits jvalue.splits)

section \<open>Signup\<close>

text \<open>
  Claim C2. A signup whose username is already in the store fails with 400 "Username
  already registered", and one whose username is free but whose email is in the store
  fails with 400 "Email already registered". In both cases the store is returned
  unchanged, and the outcome is the same for every library, also one whose \<^verbatim>\<open>hash\<close>
  raises: the request fails before the password is hashed or a record inserted.
\<close>

theorem signup_duplicate_rejected:
  "(get_user_by_username prisma (create_username user_data) \<noteq> None \<longrightarrow>
      signup L environ g utcnow user_data prisma =
        (Inl (HTTPException 400 ''Username already registered'' []), prisma)) \<and>
   (get_user_by_username prisma (create_username user_data) = None \<and>
    get_user_by_email prisma (create_email user_data) \<noteq> None \<longrightarrow>
      signup L environ g utcnow user_data prisma =
        (Inl (HTTPException 400 ''Email already registered'' []), prisma))"
  by (auto simp: signup_def HTTP_400_BAD_REQUEST_def split: option.splits)

theorem signup_duplicate_rejected_witness:
  "get_user_by_username [alice] ''alice'' \<noteq> None \<and>
   signup failing_hash_libs Map.empty sample_defaults 0 alice_signup [alice] =
     (Inl (HTTPException 400 ''Username already registered'' []), [alice]) \<and>
   get_user_by_username [alice] ''alice2'' = None \<and>
   get_user_by_email [alice] ''alice@x.com'' \<noteq> None \<and>
   signup failing_hash_libs Map.empty sample_defaults 0
       (alice_signup\<lparr>create_username := ''alice2''\<rparr>) [alice] =
     (Inl (HTTPException 400 ''Email already registered'' []), [alice])"
proof -
  have u: "get_user_by_username [alice] (create_username alice_signup) \<noteq> None"
    by (simp add: get_user_by_username_def alice_def alice_signup_def)
  have n: "get_user_by_username [alice]
             (create_username (alice_signup\<lparr>create_username := ''alice2''\<rparr>)) = None"
    by (simp add: get_user_by_username_def alice_def)
  have e: "get_user_by_email [alice]
             (create_email (alice_signup\<lparr>create_username := ''alice2''\<rparr>)) \<noteq> None"
    by (simp add: get_user_by_email_def alice_def alice_signup_def)
  show ?thesis
    using u n e
      signup_duplicate_rejected [of "[alice]" alice_signup failing_hash_libs Map.empty
        sample_defaults 0]
      signup_duplicate_rejected [of "[alice]" "alice_signup\<lparr>create_username := ''alice2''\<rparr>"
        failing_hash_libs Map.empty sample_defaults 0]
    by (simp add: alice_signup_def)
qed

text \<open>
  Claim C10. The username is checked before the email: when both are already in the
  store, signup reports "Username already registered" and not "Email already registered".
\<close>

theorem signup_username_checked_first:
  assumes "get_user_by_username prisma (create_username user_data) \<noteq> None"
    and "get_user_by_email prisma (create_email user_data) \<noteq> None"
  shows "fst (signup L environ g utcnow user_data prisma) =
           Inl (HTTPException 400 ''Username already registered'' []) \<and>
         fst (signup L environ g utcnow user_data prisma) \<noteq>
           Inl (HTTPException 400 ''Email already registered'' [])"
  using assms(1) by (auto simp: signup_def HTTP_400_BAD_REQUEST_def split: option.splits)

theorem signup_username_checked_first_witness:
  "get_user_by_username [alice] (create_username alice_signup) \<noteq> None \<and>
   get_user_by_email [alice] (create_email alice_signup) \<noteq> None \<and>
   detail (projl (fst (signup stub_libs Map.empty sample_defaults 0 alice_signup [alice]))) =
     ''Username already registered''"
proof -
  have u: "get_user_by_username [alice] (create_username alice_signup) \<noteq> None"
    by (simp add: get_user_by_username_def alice_def alice_signup_def)
  have e: "get_user_by_email [alice] (create_email alice_signup) \<noteq> None"
    by (simp add: get_user_by_email_def alice_def alice_signup_def)
  from signup_username_checked_first [OF u e, of stub_libs Map.empty sample_defaults 0] u e
  show ?thesis by simp
qed



section \<open>Login\<close>

text \<open>
  Claim C3. Login fails with 401 "Incorrect username or password" exactly when the
  username is unknown to the store or the verification of the password against the
  stored hash returns false. The two causes cannot be told apart from the response: a
  run with an unknown username and a run with a known username and a wrong password end
  in the same exception, status, message and headers alike.
\<close>

theorem login_invalid_credentials:
  "(fst (login L environ utcnow user_data prisma) =
      Inl (HTTPException 401 ''Incorrect username or password''
             [(''WWW-Authenticate'', ''Bearer'')]) \<longleftrightarrow>
    get_user_by_username prisma (login_username user_data) = None \<or>
    (\<exists>u. get_user_by_username prisma (login_username user_data) = Some u \<and>
         verify_password L (login_password user_data) (password u) = Inr False)) \<and>
   (get_user_by_username prisma (login_username user_data) = None \<and>
    get_user_by_username prisma' (login_username user_data') = Some u' \<and>
    verify_password L' (login_password user_data') (password u') = Inr False \<longrightarrow>
      fst (login L environ utcnow user_data prisma) =
      fst (login L' environ' utcnow' user_data' prisma'))"
  by (auto simp: login_outcome split: option.splits sum.splits bool.splits)

theorem login_invalid_credentials_witness:
  "get_user_by_username [alice] (login_username bob_login) = None \<and>
   get_user_by_username [alice] (login_username alice_wrong_login) = Some alice \<and>
   verify_password stub_libs (login_password alice_wrong_login) (password alice) = Inr False \<and>
   fst (login stub_libs Map.empty 0 bob_login [alice]) =
     fst (login stub_libs Map.empty 0 alice_wrong_login [alice]) \<and>
   fst (login stub_libs Map.empty 0 bob_login [alice]) =
     Inl (HTTPException 401 ''Incorrect username or password''
            [(''WWW-Authenticate'', ''Bearer'')])"
proof -
  have n: "get_user_by_username [alice] (login_username bob_login) = None"
    by (simp add: get_user_by_username_def alice_def bob_login_def)
  have s: "get_user_by_username [alice] (login_username alice_wrong_login) = Some alice"
    by (simp add: get_user_by_username_def alice_def alice_wrong_login_def)
  have f: "verify_password stub_libs (login_password alice_wrong_login) (password alice) = Inr False"
    by (simp add: verify_password_def stub_libs_def stub_verify_def alice_def alice_wrong_login_def)
  note t = login_invalid_credentials [of stub_libs Map.empty 0 bob_login "[alice]" "[alice]"
      alice_wrong_login alice stub_libs Map.empty 0]
  from t n have a: "fst (login stub_libs Map.empty 0 bob_login [alice]) =
     Inl (HTTPException 401 ''Incorrect username or password''
            [(''WWW-Authenticate'', ''Bearer'')])"
    by blast
  from t n s f have b: "fst (login stub_libs Map.empty 0 bob_login [alice]) =
     fst (login stub_libs Map.empty 0 alice_wrong_login [alice])"
    by blast
  from n s f a b show ?thesis by blast
qed

section \<open>Token lifetimes\<close>

text \<open>
  Claim C4. The token in a signup response and the token in a login response are the
  signature over the subject and an expiry 30 minutes after issuance; called without a
  lifetime, \<^verbatim>\<open>create_access_token\<close> signs the data with an expiry 15 minutes after issuance.
\<close>

theorem token_lifetimes:
  "(signup L environ g utcnow user_data prisma = (Inr r, prisma') \<longrightarrow>
      jwt_encode L [(''sub'', JStr (create_username user_data)),
                    (''exp'', JDatetime (utcnow + 30 * 60))]
        (SECRET_KEY environ) ALGORITHM = Inr (access_token r)) \<and>
   (login L environ utcnow login_data prisma = (Inr r', prisma'') \<longrightarrow>
      jwt_encode L [(''sub'', JStr (login_username login_data)),
                    (''exp'', JDatetime (utcnow + 30 * 60))]
        (SECRET_KEY environ) ALGORITHM = Inr (access_token r')) \<and>
   create_access_token L environ utcnow data None =
     jwt_encode L (AList.update ''exp'' (JDatetime (utcnow + 15 * 60)) data)
       (SECRET_KEY environ) ALGORITHM \<and>
   map_of (to_encode utcnow data None) ''exp'' = Some (JDatetime (utcnow + 15 * 60))"
  using signup_Inr_token [of L environ g utcnow user_data prisma r prisma']
    login_Inr_token [of L environ utcnow login_data prisma r' prisma'']
  by (simp add: create_access_token_def to_encode_def timedelta_minutes_def update_conv')

theorem token_lifetimes_witness:
  "signup stub_libs Map.empty sample_defaults 0 alice_signup [] =
     (Inr \<lparr>access_token = alice_token, token_type = ''bearer'',
           user = \<lparr>id_field = ''u1'', email = ''alice@x.com'', username = ''alice'',
                   createdAt = 0, updatedAt = 0\<rparr>\<rparr>, [alice]) \<and>
   jwt_encode stub_libs [(''sub'', JStr ''alice''), (''exp'', JDatetime 1800)]
     (SECRET_KEY Map.empty) ALGORITHM = Inr alice_token \<and>
   login stub_libs Map.empty 0 alice_login [alice] =
     (Inr \<lparr>access_token = alice_token, token_type = ''bearer'',
           user = \<lparr>id_field = ''u1'', email = ''alice@x.com'', username = ''alice'',
                   createdAt = 0, updatedAt = 0\<rparr>\<rparr>, [alice])"
proof -
  let ?r = "\<lparr>access_token = alice_token, token_type = ''bearer'',
           user = \<lparr>id_field = ''u1'', email = ''alice@x.com'', username = ''alice'',
                   createdAt = 0, updatedAt = 0\<rparr>\<rparr>"
  have s: "signup stub_libs Map.empty sample_defaults 0 alice_signup [] = (Inr ?r, [alice])"
    by (simp add: signup_def get_user_by_username_def get_user_by_email_def
          get_password_hash_def stub_libs_def stub_hash_def user_create_def Let_def
          create_access_token_def to_encode_sub stub_encode_def alice_claims_def
          UserResponse_init_User_dict alice_signup_def sample_defaults_def alice_def)
  have l: "login stub_libs Map.empty 0 alice_login [alice] = (Inr ?r, [alice])"
    by (simp add: login_def authenticate_user_def get_user_by_username_def
          verify_password_def stub_libs_def stub_verify_def
          create_access_token_def to_encode_sub stub_encode_def alice_claims_def
          UserResponse_init_User_dict alice_login_def alice_def)
  from token_lifetimes [of stub_libs Map.empty sample_defaults 0 alice_signup "[]" ?r "[alice]"
      alice_login] s
  have "jwt_encode stub_libs [(''sub'', JStr ''alice''), (''exp'', JDatetime 1800)]
     (SECRET_KEY Map.empty) ALGORITHM = Inr alice_token"
    by (simp add: alice_signup_def)
  with s l show ?thesis by blast
qed

section \<open>Response bodies\<close>

text \<open>
  Claim C5. Every successful signup and every successful login answers with the same
  shape: the fields \<^verbatim>\<open>access_token\<close>, \<^verbatim>\<open>token_type\<close> and \<^verbatim>\<open>user\<close>, the token type being
  "bearer". The user view in these responses and in the one of \<^verbatim>\<open>/me\<close> has no password
  field; for every stored record the view of \<^verbatim>\<open>/me\<close> exists and does not depend on the
  stored hash.
\<close>

theorem responses_hide_password:
  "(signup L environ g utcnow user_data prisma = (Inr r, prisma') \<longrightarrow>
      token_type r = ''bearer'' \<and>
      map fst (Token_dict r) = [''access_token'', ''token_type'', ''user''] \<and>
      ''password'' \<notin> set (map fst (UserResponse_dict (user r)))) \<and>
   (login L environ utcnow login_data prisma = (Inr r', prisma'') \<longrightarrow>
      token_type r' = ''bearer'' \<and>
      map fst (Token_dict r') = [''access_token'', ''token_type'', ''user''] \<and>
      ''password'' \<notin> set (map fst (UserResponse_dict (user r')))) \<and>
   (\<exists>v. get_current_user_info u = Inr v \<and>
        ''password'' \<notin> set (map fst (UserResponse_dict v)) \<and>
        get_current_user_info (u\<lparr>password := p\<rparr>) = Inr v)"
  using signup_Inr_token [of L environ g utcnow user_data prisma r prisma']
    login_Inr_token [of L environ utcnow login_data prisma r' prisma'']
  by (simp add: Token_dict_def view_keys get_current_user_info_def UserResponse_init_User_dict)

theorem responses_hide_password_witness:
  "signup stub_libs Map.empty sample_defaults 0 alice_signup [] =
     (Inr \<lparr>access_token = alice_token, token_type = ''bearer'',
           user = \<lparr>id_field = ''u1'', email = ''alice@x.com'', username = ''alice'',
                   createdAt = 0, updatedAt = 0\<rparr>\<rparr>, [alice]) \<and>
   login stub_libs Map.empty 0 alice_login [alice] =
     (Inr \<lparr>access_token = alice_token, token_type = ''bearer'',
           user = \<lparr>id_field = ''u1'', email = ''alice@x.com'', username = ''alice'',
                   createdAt = 0, updatedAt = 0\<rparr>\<rparr>, [alice]) \<and>
   ''password'' \<notin> set (map fst (UserResponse_dict
       \<lparr>id_field = ''u1'', email = ''alice@x.com'', username = ''alice'',
        createdAt = 0, updatedAt = 0\<rparr>))"
proof -
  let ?r = "\<lparr>access_token = alice_token, token_type = ''bearer'',
           user = \<lparr>id_field = ''u1'', email = ''alice@x.com'', username = ''alice'',
                   createdAt = 0, updatedAt = 0\<rparr>\<rparr>"
  have s: "signup stub_libs Map.empty sample_defaults 0 alice_signup [] = (Inr ?r, [alice])"
    by (simp add: signup_def get_user_by_username_def get_user_by_email_def
          get_password_hash_def stub_libs_def stub_hash_def user_create_def Let_def
          create_access_token_def to_encode_sub stub_encode_def alice_claims_def
          UserResponse_init_User_dict alice_signup_def sample_defaults_def alice_def)
  have l: "login stub_libs Map.empty 0 alice_login [alice] = (Inr ?r, [alice])"
    by (simp add: login_def authenticate_user_def get_user_by_username_def
          verify_password_def stub_libs_def stub_verify_def
          create_access_token_def to_encode_sub stub_encode_def alice_claims_def
          UserResponse_init_User_dict alice_login_def alice_def)
  from responses_hide_password [of stub_libs Map.empty sample_defaults 0 alice_signup "[]" ?r
      "[alice]" alice_login ?r "[alice]"] s l
  have "''password'' \<notin> set (map fst (UserResponse_dict (user ?r)))" by blast
  with s l show ?thesis by simp
qed

section \<open>Password verification\<close>

text \<open>
  Claim C8, as stated: for every plaintext and every malformed string given as the stored
  hash, \<^verbatim>\<open>verify_password\<close> raises nothing and returns false. The function has no handler
  of its own, so this fails wherever the library raises: with a library that, like
  passlib, rejects a string it cannot identify as a hash, the call does not return false.
\<close>

theorem verify_password_malformed_counterexample:
  "verify_password stub_libs ''secret1'' ''not-a-hash'' \<noteq> Inr False"
  by (simp add: verify_password_def stub_libs_def stub_verify_def)

text \<open>
  Claim C8, amended. \<^verbatim>\<open>verify_password\<close> returns false exactly when the library's
  \<^verbatim>\<open>verify\<close> returns false, and an error the library raises on the stored hash leaves
  \<^verbatim>\<open>verify_password\<close> unchanged and leaves login as an unhandled error, not as a 401.
\<close>

theorem verify_password_delegates:
  "(verify_password L plain hashed = Inr False \<longleftrightarrow>
      pwd_context_verify L plain hashed = Inr False) \<and>
   (\<forall>e. pwd_context_verify L plain hashed = Inl e \<longrightarrow>
      verify_password L plain hashed = Inl e \<and>
      (\<forall>u. get_user_by_username prisma (login_username user_data) = Some u \<and>
           password u = hashed \<and> login_password user_data = plain \<longrightarrow>
           fst (login L environ utcnow user_data prisma) = Inl (Unhandled e)))"
  by (auto simp: login_outcome verify_password_def)

theorem verify_password_delegates_witness:
  "pwd_context_verify stub_libs ''secret1'' ''not-a-hash'' = Inl (OtherError ''UnknownHashError'') \<and>
   verify_password stub_libs ''secret1'' ''not-a-hash'' = Inl (OtherError ''UnknownHashError'') \<and>
   fst (login stub_libs Map.empty 0 alice_login [mallory]) =
     Inl (Unhandled (OtherError ''UnknownHashError'')) \<and>
   pwd_context_verify stub_libs ''wrong'' ''$2b$secret1'' = Inr False \<and>
   verify_password stub_libs ''wrong'' ''$2b$secret1'' = Inr False"
proof -
  have r: "pwd_context_verify stub_libs ''secret1'' ''not-a-hash'' =
             Inl (OtherError ''UnknownHashError'')"
    by (simp add: stub_libs_def stub_verify_def)
  have f: "pwd_context_verify stub_libs ''wrong'' ''$2b$secret1'' = Inr False"
    by (simp add: stub_libs_def stub_verify_def)
  have g: "get_user_by_username [mallory] (login_username alice_login) = Some mallory \<and>
           password mallory = ''not-a-hash'' \<and> login_password alice_login = ''secret1''"
    by (simp add: get_user_by_username_def mallory_def alice_def alice_login_def)
  note t = verify_password_delegates [of stub_libs "''secret1''" "''not-a-hash''"
      "[mallory]" alice_login Map.empty 0]
  from t r have a: "verify_password stub_libs ''secret1'' ''not-a-hash'' =
      Inl (OtherError ''UnknownHashError'')" by blast
  from t r g have b: "fst (login stub_libs Map.empty 0 alice_login [mallory]) =
     Inl (Unhandled (OtherError ''UnknownHashError''))" by blast
  from verify_password_delegates [of stub_libs "''wrong''" "''$2b$secret1''"] f
  have c: "verify_password stub_libs ''wrong'' ''$2b$secret1'' = Inr False" by blast
  from r a b f c show ?thesis by blast
qed

end
